theory Spec2Isabelle
  imports Complex_Main "HOL-Library.AList" "HOL-Library.Monad_Syntax"
begin

section \<open>Values, upstream replies and the environment of one request\<close>

text \<open>
  The server (\<^verbatim>\<open>app.py\<close>) handles Python values that come out of \<^verbatim>\<open>response.json()\<close> and
  go into \<^verbatim>\<open>jsonify\<close>: \<^verbatim>\<open>None\<close>, booleans, integers, floats, strings, lists and
  dictionaries. A dictionary is an association list in insertion order with distinct keys;
  a float is carried through as the number it denotes (the server never computes with it).
\<close>

datatype json =
    JNull
  | JBool bool
  | JInt int
  | JFloat real
  | JStr string
  | JArr "json list"
  | JObj "(string \<times> json) list"

text \<open>
  What \<^verbatim>\<open>session.get(url, ...)\<close> does: it raises (connection error, timeout), or it returns
  a response with a status code and a body. The body is \<open>None\<close> when \<^verbatim>\<open>response.json()\<close>
  would raise on it, and the parsed value otherwise.
\<close>

datatype reply = NetworkError | Reply nat "json option"

text \<open>
  Everything one request reads from outside the process: the upstream replies by URL (no
  handler requests the same URL twice), \<^verbatim>\<open>time.time()\<close>, and \<^verbatim>\<open>datetime.now()\<close> as its
  ISO string and its hour. \<^verbatim>\<open>time.sleep\<close> has no effect on any value and is left out.
  Python's \<^verbatim>\<open>str.upper\<close> is a builtin of the interpreter and follows the Unicode case
  mapping, which is not code of this server: it is the parameter \<open>str_upper\<close>, and every
  theorem about \<^verbatim>\<open>get_stock\<close> holds for any function in its place.
\<close>

record env =
  session_get :: "string \<Rightarrow> reply"
  time_time :: real
  now_isoformat :: string
  now_hour :: nat
  str_upper :: "string \<Rightarrow> string"

text \<open>The module-level \<^verbatim>\<open>cache\<close> dictionary; \<^verbatim>\<open>cache['data']\<close> is \<^verbatim>\<open>None\<close> or a dictionary.\<close>

record cache =
  data :: "(string \<times> json) list option"
  timestamp :: real
  ttl :: real

definition initial_cache :: cache where
  "initial_cache = \<lparr>data = None, timestamp = 0, ttl = 60\<rparr>"

text \<open>An HTTP response of a handler, and the exception a handler may leave uncaught.\<close>

record response =
  status :: nat
  body :: json

datatype py_error = KeyError

section \<open>Python primitives\<close>

text \<open>Truth value of a Python object, as \<^verbatim>\<open>if x:\<close> and \<^verbatim>\<open>and\<close> test it.\<close>

fun py_truthy :: "json \<Rightarrow> bool" where
  "py_truthy JNull = False"
| "py_truthy (JBool b) = b"
| "py_truthy (JInt i) = (i \<noteq> 0)"
| "py_truthy (JFloat r) = (r \<noteq> 0)"
| "py_truthy (JStr s) = (s \<noteq> [])"
| "py_truthy (JArr xs) = (xs \<noteq> [])"
| "py_truthy (JObj kvs) = (kvs \<noteq> [])"

text \<open>
  \<^verbatim>\<open>x.get(key, default)\<close>: only a dictionary has \<^verbatim>\<open>get\<close>; on anything else Python raises
  AttributeError, which is the result \<open>None\<close> here. Inside the fetch functions every
  exception is caught by the same \<^verbatim>\<open>except Exception\<close>, so its kind is not recorded.
\<close>

fun dict_get :: "json \<Rightarrow> string \<Rightarrow> json \<Rightarrow> json option" where
  "dict_get (JObj kvs) k d = Some (case map_of kvs k of None \<Rightarrow> d | Some v \<Rightarrow> v)"
| "dict_get _ k d = None"

text \<open>
  \<^verbatim>\<open>for item in x\<close>: a list yields its elements, a dictionary its keys, a string its
  characters; anything else is not iterable (TypeError).
\<close>

fun py_iter :: "json \<Rightarrow> json list option" where
  "py_iter (JArr xs) = Some xs"
| "py_iter (JObj kvs) = Some (map (\<lambda>kv. JStr (fst kv)) kvs)"
| "py_iter (JStr s) = Some (map (\<lambda>c. JStr [c]) s)"
| "py_iter _ = None"

text \<open>\<^verbatim>\<open>x[:n]\<close>: lists and strings can be sliced; anything else raises.\<close>

fun py_slice :: "nat \<Rightarrow> json \<Rightarrow> json option" where
  "py_slice n (JArr xs) = Some (JArr (take n xs))"
| "py_slice n (JStr s) = Some (JStr (take n s))"
| "py_slice n _ = None"

section \<open>The fetch functions\<close>

definition homepage_url :: string where
  "homepage_url = ''https://www.nseindia.com''"

definition quote_url :: "string \<Rightarrow> string" where
  "quote_url symbol = ''https://www.nseindia.com/api/quote-equity?symbol='' @ symbol"

definition indices_url :: string where
  "indices_url = ''https://www.nseindia.com/api/allIndices''"

definition gainers_url :: string where
  "gainers_url = ''https://www.nseindia.com/api/live-analysis-variations?index=gainers''"

definition losers_url :: string where
  "losers_url = ''https://www.nseindia.com/api/live-analysis-variations?index=losers''"

text \<open>
  Every function that talks to the upstream returns, next to its value, the list of URLs
  it requested, in order.
\<close>

definition init_nse_session :: "env \<Rightarrow> bool \<times> string list" where
  "init_nse_session e =
     (case session_get e homepage_url of
        NetworkError \<Rightarrow> (False, [homepage_url])
      | Reply st b \<Rightarrow> (True, [homepage_url]))"

text \<open>The dictionary literal of \<^verbatim>\<open>fetch_nse_stock_data\<close>, built from the parsed body.\<close>

definition stock_quote :: "string \<Rightarrow> string \<Rightarrow> json \<Rightarrow> json option" where
  "stock_quote symbol stamp d = do {
     price_info \<leftarrow> dict_get d ''priceInfo'' (JObj []);
     price_band \<leftarrow> dict_get d ''metadata'' (JObj []);
     name \<leftarrow> dict_get price_band ''companyName'' (JStr symbol);
     price \<leftarrow> dict_get price_info ''lastPrice'' (JInt 0);
     change \<leftarrow> dict_get price_info ''change'' (JInt 0);
     pChange \<leftarrow> dict_get price_info ''pChange'' (JInt 0);
     previousClose \<leftarrow> dict_get price_info ''previousClose'' (JInt 0);
     open_price \<leftarrow> dict_get price_info ''open'' (JInt 0);
     high_low \<leftarrow> dict_get price_info ''intraDayHighLow'' (JObj []);
     dayHigh \<leftarrow> dict_get high_low ''max'' (JInt 0);
     high_low' \<leftarrow> dict_get price_info ''intraDayHighLow'' (JObj []);
     dayLow \<leftarrow> dict_get high_low' ''min'' (JInt 0);
     volume \<leftarrow> dict_get price_info ''totalTradedVolume'' (JInt 0);
     traded_value \<leftarrow> dict_get price_info ''totalTradedValue'' (JInt 0);
     lastUpdateTime \<leftarrow> dict_get price_info ''lastUpdateTime'' (JStr '''');
     Some (JObj
       [(''symbol'', JStr symbol),
        (''name'', name),
        (''price'', price),
        (''change'', change),
        (''pChange'', pChange),
        (''previousClose'', previousClose),
        (''open'', open_price),
        (''dayHigh'', dayHigh),
        (''dayLow'', dayLow),
        (''volume'', volume),
        (''value'', traded_value),
        (''lastUpdateTime'', lastUpdateTime),
        (''timestamp'', JStr stamp)])
   }"

text \<open>\<^verbatim>\<open>fetch_nse_stock_data\<close>: the quote, or \<open>None\<close> for Python's \<^verbatim>\<open>None\<close>.\<close>

definition fetch_nse_stock_data :: "env \<Rightarrow> string \<Rightarrow> json option \<times> string list" where
  "fetch_nse_stock_data e symbol =
     (let url = quote_url symbol in
      (case session_get e url of
         NetworkError \<Rightarrow> None
       | Reply st b \<Rightarrow>
           if st = 200 then
             (case b of
                None \<Rightarrow> None
              | Some d \<Rightarrow> stock_quote symbol (now_isoformat e) d)
           else None,
       [url]))"

definition INDEX_NAMES :: "string list" where
  "INDEX_NAMES = [''NIFTY 50'', ''NIFTY BANK'', ''NIFTY IT'', ''NIFTY MIDCAP 100'']"

definition index_snapshot :: "json \<Rightarrow> json option" where
  "index_snapshot item = do {
     v \<leftarrow> dict_get item ''last'' (JInt 0);
     change \<leftarrow> dict_get item ''variation'' (JInt 0);
     pChange \<leftarrow> dict_get item ''percentChange'' (JInt 0);
     open_value \<leftarrow> dict_get item ''open'' (JInt 0);
     high \<leftarrow> dict_get item ''high'' (JInt 0);
     low \<leftarrow> dict_get item ''low'' (JInt 0);
     Some (JObj
       [(''value'', v),
        (''change'', change),
        (''pChange'', pChange),
        (''open'', open_value),
        (''high'', high),
        (''low'', low)])
   }"

text \<open>
  The loop of \<^verbatim>\<open>fetch_nse_indices\<close> over the items, with the dictionary \<^verbatim>\<open>indices\<close> built
  so far. \<^verbatim>\<open>index_name in [...]\<close> holds only for a string equal to one of the four names.
\<close>

fun indices_loop :: "(string \<times> json) list \<Rightarrow> json list \<Rightarrow> (string \<times> json) list option" where
  "indices_loop indices [] = Some indices"
| "indices_loop indices (item # items) =
     (case dict_get item ''index'' (JStr '''') of
        None \<Rightarrow> None
      | Some (JStr index_name) \<Rightarrow>
          if index_name \<in> set INDEX_NAMES then
            (case index_snapshot item of
               None \<Rightarrow> None
             | Some snap \<Rightarrow> indices_loop (AList.update index_name snap indices) items)
          else indices_loop indices items
      | Some _ \<Rightarrow> indices_loop indices items)"

definition indices_of_body :: "json \<Rightarrow> (string \<times> json) list option" where
  "indices_of_body d = do {
     lst \<leftarrow> dict_get d ''data'' (JArr []);
     items \<leftarrow> py_iter lst;
     indices_loop [] items
   }"

definition fetch_nse_indices :: "env \<Rightarrow> json \<times> string list" where
  "fetch_nse_indices e =
     (case session_get e indices_url of
        NetworkError \<Rightarrow> JObj []
      | Reply st b \<Rightarrow>
          if st = 200 then
            (case b of
               None \<Rightarrow> JObj []
             | Some d \<Rightarrow> (case indices_of_body d of None \<Rightarrow> JObj [] | Some indices \<Rightarrow> JObj indices))
          else JObj [],
      [indices_url])"

text \<open>One entry appended to \<^verbatim>\<open>result['gainers']\<close> or \<^verbatim>\<open>result['losers']\<close>.\<close>

definition mover_entry :: "json \<Rightarrow> json option" where
  "mover_entry item = do {
     symbol \<leftarrow> dict_get item ''symbol'' (JStr '''');
     meta \<leftarrow> dict_get item ''meta'' (JObj []);
     name \<leftarrow> dict_get meta ''companyName'' (JStr '''');
     price \<leftarrow> dict_get item ''lastPrice'' (JInt 0);
     change \<leftarrow> dict_get item ''change'' (JInt 0);
     pChange \<leftarrow> dict_get item ''pChange'' (JInt 0);
     Some (JObj
       [(''symbol'', symbol),
        (''name'', name),
        (''price'', price),
        (''change'', change),
        (''pChange'', pChange)])
   }"

fun mover_entries :: "json list \<Rightarrow> json list option" where
  "mover_entries [] = Some []"
| "mover_entries (item # items) = do {
     m \<leftarrow> mover_entry item;
     ms \<leftarrow> mover_entries items;
     Some (m # ms)
   }"

text \<open>\<^verbatim>\<open>body.get('NIFTY', {}).get('data', [])\<close>, the upstream list of one leg.\<close>

definition nifty_data :: "json \<Rightarrow> json option" where
  "nifty_data d = do {
     nifty \<leftarrow> dict_get d ''NIFTY'' (JObj []);
     dict_get nifty ''data'' (JArr [])
   }"

text \<open>
  One leg of \<^verbatim>\<open>fetch_top_gainers_losers\<close> once both responses are there: the entries it
  appends, or \<open>None\<close> when it raises.
\<close>

definition movers_leg :: "nat \<Rightarrow> json option \<Rightarrow> json list option" where
  "movers_leg st b =
     (if st = 200 then do {
        d \<leftarrow> b;
        lst \<leftarrow> nifty_data d;
        first \<leftarrow> py_slice 10 lst;
        items \<leftarrow> py_iter first;
        mover_entries items
      }
      else Some [])"

definition movers_result :: "json list \<Rightarrow> json list \<Rightarrow> json" where
  "movers_result gs ls = JObj [(''gainers'', JArr gs), (''losers'', JArr ls)]"

text \<open>
  Both requests and both legs sit in one \<^verbatim>\<open>try\<close> block, whose handler returns the result
  with both lists empty. A request that raises ends the block before the next request.
\<close>

definition fetch_top_gainers_losers :: "env \<Rightarrow> json \<times> string list" where
  "fetch_top_gainers_losers e =
     (case session_get e gainers_url of
        NetworkError \<Rightarrow> (movers_result [] [], [gainers_url])
      | Reply gst gb \<Rightarrow>
          (case session_get e losers_url of
             NetworkError \<Rightarrow> (movers_result [] [], [gainers_url, losers_url])
           | Reply lst lb \<Rightarrow>
               (case movers_leg gst gb of
                  None \<Rightarrow> movers_result [] []
                | Some gs \<Rightarrow>
                    (case movers_leg lst lb of
                       None \<Rightarrow> movers_result [] []
                     | Some ls \<Rightarrow> movers_result gs ls),
                [gainers_url, losers_url])))"

section \<open>The routes\<close>

definition TOP_STOCKS :: "string list" where
  "TOP_STOCKS =
     [''RELIANCE'', ''TCS'', ''HDFCBANK'', ''INFY'', ''ICICIBANK'',
      ''HINDUNILVR'', ''ITC'', ''SBIN'', ''BHARTIARTL'', ''KOTAKBANK'',
      ''LT'', ''AXISBANK'', ''ASIANPAINT'', ''MARUTI'', ''BAJFINANCE'',
      ''TITAN'', ''SUNPHARMA'', ''ULTRACEMCO'', ''NESTLEIND'', ''WIPRO'']"

text \<open>
  The loop \<^verbatim>\<open>for symbol in ...: data = fetch_nse_stock_data(symbol); if data: append\<close>
  of \<^verbatim>\<open>get_stocks\<close> and \<^verbatim>\<open>get_all_data\<close>.
\<close>

fun stocks_loop :: "env \<Rightarrow> string list \<Rightarrow> json list \<times> string list" where
  "stocks_loop e [] = ([], [])"
| "stocks_loop e (symbol # symbols) =
     (let (d, calls) = fetch_nse_stock_data e symbol;
          (ds, calls') = stocks_loop e symbols
      in ((case d of None \<Rightarrow> [] | Some q \<Rightarrow> if py_truthy q then [q] else []) @ ds,
          calls @ calls'))"

text \<open>Truth value of \<^verbatim>\<open>cache['data']\<close>: \<^verbatim>\<open>None\<close> and the empty dictionary are false.\<close>

definition data_truthy :: "cache \<Rightarrow> bool" where
  "data_truthy c = (case data c of None \<Rightarrow> False | Some d \<Rightarrow> d \<noteq> [])"

text \<open>
  \<^verbatim>\<open>if not cache['data']: cache['data'] = {}\<close> followed by \<^verbatim>\<open>cache['data'][k] = v\<close> and
  \<^verbatim>\<open>cache['timestamp'] = current_time\<close>.
\<close>

definition cache_store :: "cache \<Rightarrow> string \<Rightarrow> json \<Rightarrow> real \<Rightarrow> cache" where
  "cache_store c k v current_time =
     (let d = (if \<not> data_truthy c then [] else (case data c of None \<Rightarrow> [] | Some d \<Rightarrow> d))
      in c\<lparr>data := Some (AList.update k v d), timestamp := current_time\<rparr>)"

text \<open>
  A handler returns its HTTP response or the exception it does not catch, the cache after
  the request, and the upstream URLs it requested.
\<close>

type_synonym outcome = "(py_error + response) \<times> cache \<times> string list"

text \<open>The entry of \<^verbatim>\<open>cache['data']\<close> under a key, if there is one.\<close>

definition cache_lookup :: "cache \<Rightarrow> string \<Rightarrow> json option" where
  "cache_lookup c k = (case data c of None \<Rightarrow> None | Some d \<Rightarrow> map_of d k)"

text \<open>
  On the cached branch \<^verbatim>\<open>cache['data']['stocks']\<close> is a subscript: a dictionary without
  the key raises KeyError, and the route has no handler for it.
\<close>

definition get_stocks :: "cache \<Rightarrow> env \<Rightarrow> outcome" where
  "get_stocks c e =
     (let current_time = time_time e in
      if data_truthy c \<and> current_time - timestamp c < ttl c then
        (case cache_lookup c ''stocks'' of
           None \<Rightarrow> (Inl KeyError, c, [])
         | Some v \<Rightarrow> (Inr \<lparr>status = 200, body = v\<rparr>, c, []))
      else
        (let (ok, calls) = init_nse_session e;
             (stocks_data, calls') = stocks_loop e TOP_STOCKS
         in (Inr \<lparr>status = 200, body = JArr stocks_data\<rparr>,
             cache_store c ''stocks'' (JArr stocks_data) current_time,
             calls @ calls')))"

text \<open>The response \<^verbatim>\<open>jsonify({'error': 'Failed to fetch stock data'}), 500\<close>.\<close>

definition fetch_failed :: response where
  "fetch_failed =
     \<lparr>status = 500, body = JObj [(''error'', JStr ''Failed to fetch stock data'')]\<rparr>"

definition get_stock :: "env \<Rightarrow> string \<Rightarrow> (py_error + response) \<times> string list" where
  "get_stock e symbol =
     (let (ok, calls) = init_nse_session e;
          (d, calls') = fetch_nse_stock_data e (str_upper e symbol)
      in ((case d of
             None \<Rightarrow> Inr fetch_failed
           | Some q \<Rightarrow> if py_truthy q then Inr \<lparr>status = 200, body = q\<rparr> else Inr fetch_failed),
          calls @ calls'))"

text \<open>\<^verbatim>\<open>cache['data'].get('indices')\<close> on a dictionary.\<close>

definition cached_indices :: "cache \<Rightarrow> json" where
  "cached_indices c = (case cache_lookup c ''indices'' of None \<Rightarrow> JNull | Some v \<Rightarrow> v)"

definition get_indices :: "cache \<Rightarrow> env \<Rightarrow> outcome" where
  "get_indices c e =
     (let current_time = time_time e in
      if data_truthy c \<and> py_truthy (cached_indices c) \<and> current_time - timestamp c < ttl c then
        (Inr \<lparr>status = 200, body = cached_indices c\<rparr>, c, [])
      else
        (let (ok, calls) = init_nse_session e;
             (indices, calls') = fetch_nse_indices e
         in (Inr \<lparr>status = 200, body = indices\<rparr>,
             cache_store c ''indices'' indices current_time,
             calls @ calls')))"

definition get_movers :: "env \<Rightarrow> (py_error + response) \<times> string list" where
  "get_movers e =
     (let (ok, calls) = init_nse_session e;
          (movers, calls') = fetch_top_gainers_losers e
      in (Inr \<lparr>status = 200, body = movers\<rparr>, calls @ calls'))"

definition get_all_data :: "cache \<Rightarrow> env \<Rightarrow> outcome" where
  "get_all_data c e =
     (let current_time = time_time e in
      if data_truthy c \<and> current_time - timestamp c < ttl c then
        (Inr \<lparr>status = 200, body = JObj (case data c of None \<Rightarrow> [] | Some d \<Rightarrow> d)\<rparr>, c, [])
      else
        (let (ok, calls) = init_nse_session e;
             (indices, calls1) = fetch_nse_indices e;
             (movers, calls2) = fetch_top_gainers_losers e;
             (stocks_data, calls3) = stocks_loop e (take 15 TOP_STOCKS);
             complete_data =
               [(''indices'', indices),
                (''stocks'', JArr stocks_data),
                (''movers'', movers),
                (''timestamp'', JStr (now_isoformat e)),
                (''market_status'',
                   JStr (if 9 \<le> now_hour e \<and> now_hour e < 16 then ''open'' else ''closed''))]
         in (Inr \<lparr>status = 200, body = JObj complete_data\<rparr>,
             c\<lparr>data := Some complete_data, timestamp := current_time\<rparr>,
             calls @ calls1 @ calls2 @ calls3)))"

definition clear_cache :: "cache \<Rightarrow> outcome" where
  "clear_cache c =
     (Inr \<lparr>status = 200, body = JObj [(''message'', JStr ''Cache cleared successfully'')]\<rparr>,
      c\<lparr>data := None, timestamp := 0\<rparr>,
      [])"

text \<open>The requests the server routes, and the server run on a sequence of them.\<close>

datatype request =
    GetStocks
  | GetStock string
  | GetIndices
  | GetMovers
  | GetAll
  | ClearCache

fun handle :: "cache \<Rightarrow> env \<Rightarrow> request \<Rightarrow> outcome" where
  "handle c e GetStocks = get_stocks c e"
| "handle c e (GetStock symbol) = (let (r, calls) = get_stock e symbol in (r, c, calls))"
| "handle c e GetIndices = get_indices c e"
| "handle c e GetMovers = (let (r, calls) = get_movers e in (r, c, calls))"
| "handle c e GetAll = get_all_data c e"
| "handle c e ClearCache = clear_cache c"

text \<open>The cache after a sequence of requests, each with its own environment.\<close>

fun serve :: "cache \<Rightarrow> (env \<times> request) list \<Rightarrow> cache" where
  "serve c [] = c"
| "serve c ((e, r) # rs) = serve (fst (snd (handle c e r))) rs"

text \<open>
  The dictionary \<^verbatim>\<open>complete_data\<close> that \<^verbatim>\<open>get_all_data\<close> assembles when it fetches.
\<close>

definition snapshot :: "env \<Rightarrow> (string \<times> json) list" where
  "snapshot e =
     [(''indices'', fst (fetch_nse_indices e)),
      (''stocks'', JArr (fst (stocks_loop e (take 15 TOP_STOCKS)))),
      (''movers'', fst (fetch_top_gainers_losers e)),
      (''timestamp'', JStr (now_isoformat e)),
      (''market_status'',
         JStr (if 9 \<le> now_hour e \<and> now_hour e < 16 then ''open'' else ''closed''))]"

section \<open>Bodies without optional fields\<close>

text \<open>
  A parsed value is a dictionary that has none of the listed keys.
\<close>

definition lacks_keys :: "string list \<Rightarrow> json \<Rightarrow> bool" where
  "lacks_keys ks d = (case d of JObj kvs \<Rightarrow> list_all (\<lambda>k. map_of kvs k = None) ks | _ \<Rightarrow> False)"

text \<open>
  A quote body without optional fields: a dictionary in which \<^verbatim>\<open>priceInfo\<close> and \<^verbatim>\<open>metadata\<close>
  are absent, or are dictionaries with none of the keys that \<^verbatim>\<open>fetch_nse_stock_data\<close> reads
  from them.
\<close>

definition bare_body :: "json \<Rightarrow> bool" where
  "bare_body d =
     (case (dict_get d ''priceInfo'' (JObj []), dict_get d ''metadata'' (JObj [])) of
        (Some price_info, Some price_band) \<Rightarrow>
          lacks_keys [''lastPrice'', ''change'', ''pChange'', ''previousClose'', ''open'',
            ''intraDayHighLow'', ''totalTradedVolume'', ''totalTradedValue'', ''lastUpdateTime'']
            price_info \<and>
          lacks_keys [''companyName''] price_band
      | _ \<Rightarrow> False)"

text \<open>The quote in which every field has its default.\<close>

definition bare_quote :: "string \<Rightarrow> string \<Rightarrow> json" where
  "bare_quote symbol stamp =
     JObj
       [(''symbol'', JStr symbol),
        (''name'', JStr symbol),
        (''price'', JInt 0),
        (''change'', JInt 0),
        (''pChange'', JInt 0),
        (''previousClose'', JInt 0),
        (''open'', JInt 0),
        (''dayHigh'', JInt 0),
        (''dayLow'', JInt 0),
        (''volume'', JInt 0),
        (''value'', JInt 0),
        (''lastUpdateTime'', JStr []),
        (''timestamp'', JStr stamp)]"

section \<open>Example environments and caches\<close>

text \<open>
  Concrete upstream behaviours, clock readings and caches on which the theorems below are
  instantiated. An environment is an upstream at a clock reading, given in seconds after
  \<open>start_time\<close>, the reading of \<^verbatim>\<open>time.time()\<close> on a morning at ten.
  The upstreams: one that cannot be reached, one that answers 503, one that answers 200
  with the empty object, one that answers 200 with an empty array, and one whose index
  list holds NIFTY 50, which is on the allow-list, and NIFTY AUTO, which is not.
\<close>

definition start_time :: real where
  "start_time = 1704103200"

text \<open>
  The upper-casing of the example environments: on a string of ASCII characters it is
  what \<^verbatim>\<open>str.upper\<close> returns, and the examples apply it to such strings only.
\<close>

definition upper_char :: "char \<Rightarrow> char" where
  "upper_char c =
     (case map_of (zip ''abcdefghijklmnopqrstuvwxyz'' ''ABCDEFGHIJKLMNOPQRSTUVWXYZ'') c of
        None \<Rightarrow> c
      | Some u \<Rightarrow> u)"

definition ascii_upper :: "string \<Rightarrow> string" where
  "ascii_upper s = map upper_char s"

definition example_env :: "(string \<Rightarrow> reply) \<Rightarrow> real \<Rightarrow> env" where
  "example_env upstream t =
     \<lparr>session_get = upstream, time_time = start_time + t,
      now_isoformat = ''2024-01-01T10:00:00'', now_hour = 10, str_upper = ascii_upper\<rparr>"

definition upstream_down :: "string \<Rightarrow> reply" where
  "upstream_down url = NetworkError"

definition upstream_503 :: "string \<Rightarrow> reply" where
  "upstream_503 url = Reply 503 None"

definition upstream_bare :: "string \<Rightarrow> reply" where
  "upstream_bare url = Reply 200 (Some (JObj []))"

definition upstream_array :: "string \<Rightarrow> reply" where
  "upstream_array url = Reply 200 (Some (JArr []))"

definition indices_scenario_body :: json where
  "indices_scenario_body =
     JObj [(''data'', JArr
       [JObj [(''index'', JStr ''NIFTY 50''), (''last'', JInt 22000)],
        JObj [(''index'', JStr ''NIFTY AUTO''), (''last'', JInt 18000)]])]"

definition upstream_indices_scenario :: "string \<Rightarrow> reply" where
  "upstream_indices_scenario url = Reply 200 (Some indices_scenario_body)"

text \<open>The dictionary that \<^verbatim>\<open>fetch_nse_indices\<close> builds from that index list.\<close>

definition scenario_indices :: json where
  "scenario_indices =
     JObj [(''NIFTY 50'',
       JObj [(''value'', JInt 22000), (''change'', JInt 0), (''pChange'', JInt 0),
             (''open'', JInt 0), (''high'', JInt 0), (''low'', JInt 0)])]"

text \<open>
  Movers: an upstream item for a symbol, the body that lists such items, the entry the
  server makes of an item, and an upstream that gives each leg its own reply.
\<close>

definition mover_item :: "string \<Rightarrow> json" where
  "mover_item s = JObj [(''symbol'', JStr s), (''lastPrice'', JInt 100)]"

definition movers_body :: "string list \<Rightarrow> json" where
  "movers_body syms = JObj [(''NIFTY'', JObj [(''data'', JArr (map mover_item syms))])]"

definition mover_row :: "string \<Rightarrow> json" where
  "mover_row s =
     JObj [(''symbol'', JStr s), (''name'', JStr []), (''price'', JInt 100),
           (''change'', JInt 0), (''pChange'', JInt 0)]"

definition upstream_movers :: "reply \<Rightarrow> reply \<Rightarrow> string \<Rightarrow> reply" where
  "upstream_movers g l url =
     (if url = gainers_url then g else if url = losers_url then l else Reply 200 (Some (JObj [])))"

definition ten_symbols :: "string list" where
  "ten_symbols = [''S01'', ''S02'', ''S03'', ''S04'', ''S05'', ''S06'', ''S07'', ''S08'', ''S09'', ''S10'']"

text \<open>Twelve gainers and two losers.\<close>

definition env_movers_long :: env where
  "env_movers_long =
     example_env (upstream_movers
       (Reply 200 (Some (movers_body (ten_symbols @ [''S11'', ''S12'']))))
       (Reply 200 (Some (movers_body [''L01'', ''L02''])))) 0"

text \<open>
  One leg fails and the other answers 200 with the one item TCS: the gainers body is not
  JSON, the gainers request raises, the gainers status is 503, the losers status is 503.
\<close>

definition env_gainers_malformed :: env where
  "env_gainers_malformed =
     example_env (upstream_movers (Reply 200 None) (Reply 200 (Some (movers_body [''TCS''])))) 0"

definition env_gainers_down :: env where
  "env_gainers_down =
     example_env (upstream_movers NetworkError (Reply 200 (Some (movers_body [''TCS''])))) 0"

definition env_gainers_503 :: env where
  "env_gainers_503 =
     example_env (upstream_movers (Reply 503 None) (Reply 200 (Some (movers_body [''TCS''])))) 0"

definition env_losers_503 :: env where
  "env_losers_503 =
     example_env (upstream_movers (Reply 200 (Some (movers_body [''TCS'']))) (Reply 503 None)) 0"

text \<open>
  A cache written at \<open>start_time\<close> that holds the indices only: what \<^verbatim>\<open>/api/indices\<close>
  leaves when it is the first request.
\<close>

definition cache_indices_only :: "json \<Rightarrow> cache" where
  "cache_indices_only v = \<lparr>data = Some [(''indices'', v)], timestamp = start_time, ttl = 60\<rparr>"

definition nifty_50_only :: json where
  "nifty_50_only = JObj [(''NIFTY 50'', JObj [(''value'', JInt 22000)])]"

section \<open>Requests issued by each function\<close>

lemma init_calls: "snd (init_nse_session e) = [homepage_url]"
  by (simp add: init_nse_session_def split: reply.splits)

lemma fetch_stock_calls: "snd (fetch_nse_stock_data e s) = [quote_url s]"
  by (simp add: fetch_nse_stock_data_def Let_def)

lemma stocks_loop_calls: "snd (stocks_loop e ss) = map quote_url ss"
  by (induction ss) (simp_all add: split_beta Let_def fetch_stock_calls)

lemma fetch_indices_calls: "snd (fetch_nse_indices e) = [indices_url]"
  by (simp add: fetch_nse_indices_def)

lemma get_stocks_miss:
  "\<not> (data_truthy c \<and> time_time e - timestamp c < ttl c) \<Longrightarrow>
   get_stocks c e =
     (Inr \<lparr>status = 200, body = JArr (fst (stocks_loop e TOP_STOCKS))\<rparr>,
      cache_store c ''stocks'' (JArr (fst (stocks_loop e TOP_STOCKS))) (time_time e),
      homepage_url # map quote_url TOP_STOCKS)"
  using init_calls[of e] stocks_loop_calls[of e TOP_STOCKS]
  by (auto simp add: get_stocks_def Let_def split_beta)

lemma get_indices_miss:
  "\<not> (data_truthy c \<and> py_truthy (cached_indices c) \<and> time_time e - timestamp c < ttl c) \<Longrightarrow>
   get_indices c e =
     (Inr \<lparr>status = 200, body = fst (fetch_nse_indices e)\<rparr>,
      cache_store c ''indices'' (fst (fetch_nse_indices e)) (time_time e),
      [homepage_url, indices_url])"
  using init_calls[of e] fetch_indices_calls[of e]
  by (auto simp add: get_indices_def Let_def split_beta)

lemma get_all_miss:
  "\<not> (data_truthy c \<and> time_time e - timestamp c < ttl c) \<Longrightarrow>
   get_all_data c e =
     (Inr \<lparr>status = 200, body = JObj (snapshot e)\<rparr>,
      c\<lparr>data := Some (snapshot e), timestamp := time_time e\<rparr>,
      homepage_url # indices_url # snd (fetch_top_gainers_losers e)
        @ map quote_url (take 15 TOP_STOCKS))"
  using init_calls[of e] fetch_indices_calls[of e] stocks_loop_calls[of e "take 15 TOP_STOCKS"]
  by (auto simp add: get_all_data_def Let_def split_beta snapshot_def)

section \<open>The index fetcher\<close>

lemma indices_loop_keys:
  "indices_loop acc items = Some kvs \<Longrightarrow> fst ` set kvs \<subseteq> fst ` set acc \<union> set INDEX_NAMES"
proof (induction items arbitrary: acc)
  case Nil
  then show ?case by auto
next
  case (Cons item items)
  show ?case
  proof (cases "dict_get item ''index'' (JStr '''')")
    case None
    with Cons.prems show ?thesis by simp
  next
    case (Some name)
    show ?thesis
    proof (cases "\<exists>n. name = JStr n \<and> n \<in> set INDEX_NAMES")
      case True
      then obtain n where n: "name = JStr n" "n \<in> set INDEX_NAMES" by blast
      with Cons.prems Some obtain snap where
        "indices_loop (AList.update n snap acc) items = Some kvs"
        by (auto split: option.splits)
      from Cons.IH [OF this] have "fst ` set kvs \<subseteq> fst ` set (AList.update n snap acc) \<union> set INDEX_NAMES" .
      with n show ?thesis by (auto simp add: dom_update)
    next
      case False
      with Cons.prems Some have "indices_loop acc items = Some kvs"
        by (cases name) (auto split: if_splits)
      from Cons.IH [OF this] show ?thesis .
    qed
  qed
qed

lemma fetch_indices_cases:
  "fst (fetch_nse_indices e) = JObj [] \<or>
   (\<exists>d kvs. session_get e indices_url = Reply 200 (Some d) \<and> indices_of_body d = Some kvs
      \<and> fst (fetch_nse_indices e) = JObj kvs)"
  by (auto simp add: fetch_nse_indices_def split: reply.splits option.splits)

lemma indices_of_body_keys:
  "indices_of_body d = Some kvs \<Longrightarrow> fst ` set kvs \<subseteq> set INDEX_NAMES"
  using indices_loop_keys [of "[]" _ kvs]
  by (auto simp add: indices_of_body_def split: bind_splits)

text \<open>
  C6. Whatever the upstream does, \<^verbatim>\<open>fetch_nse_indices\<close> returns a dictionary whose keys are
  among the four names NIFTY 50, NIFTY BANK, NIFTY IT and NIFTY MIDCAP 100. When the request
  raises, the status is not 200, the body is not JSON, or the body has not the expected
  shape, it returns the empty dictionary. A payload with NIFTY 50 and NIFTY AUTO yields
  the one key NIFTY 50.
\<close>

theorem indices_allow_list:
  "\<exists>kvs. fst (fetch_nse_indices e) = JObj kvs \<and>
     fst ` set kvs \<subseteq> {''NIFTY 50'', ''NIFTY BANK'', ''NIFTY IT'', ''NIFTY MIDCAP 100''} \<and>
     (session_get e indices_url = NetworkError \<longrightarrow> kvs = []) \<and>
     (\<forall>st b. session_get e indices_url = Reply st b \<and> (st \<noteq> 200 \<or> b = None) \<longrightarrow> kvs = []) \<and>
     (\<forall>d. session_get e indices_url = Reply 200 (Some d) \<and> indices_of_body d = None
        \<longrightarrow> kvs = [])"
proof -
  from fetch_indices_cases [of e] show ?thesis
  proof
    assume "fst (fetch_nse_indices e) = JObj []"
    then show ?thesis by simp
  next
    assume "\<exists>d kvs. session_get e indices_url = Reply 200 (Some d) \<and> indices_of_body d = Some kvs
      \<and> fst (fetch_nse_indices e) = JObj kvs"
    then obtain d kvs where *: "session_get e indices_url = Reply 200 (Some d)"
      "indices_of_body d = Some kvs" "fst (fetch_nse_indices e) = JObj kvs" by blast
    from indices_of_body_keys [OF *(2)] have
      "fst ` set kvs \<subseteq> {''NIFTY 50'', ''NIFTY BANK'', ''NIFTY IT'', ''NIFTY MIDCAP 100''}"
      by (simp add: INDEX_NAMES_def)
    with * show ?thesis by auto
  qed
qed

theorem indices_allow_list_witness:
  "fst (fetch_nse_indices (example_env upstream_indices_scenario 3))
     = JObj [(''NIFTY 50'',
         JObj [(''value'', JInt 22000), (''change'', JInt 0), (''pChange'', JInt 0),
               (''open'', JInt 0), (''high'', JInt 0), (''low'', JInt 0)])] \<and>
   session_get (example_env upstream_down 3) indices_url = NetworkError \<and>
   fst (fetch_nse_indices (example_env upstream_down 3)) = JObj [] \<and>
   session_get (example_env upstream_503 3) indices_url = Reply 503 None \<and>
   fst (fetch_nse_indices (example_env upstream_503 3)) = JObj [] \<and>
   session_get (example_env upstream_array 3) indices_url = Reply 200 (Some (JArr [])) \<and>
   indices_of_body (JArr []) = None \<and>
   fst (fetch_nse_indices (example_env upstream_array 3)) = JObj []"
proof -
  have scenario: "fst (fetch_nse_indices (example_env upstream_indices_scenario 3))
     = JObj [(''NIFTY 50'',
         JObj [(''value'', JInt 22000), (''change'', JInt 0), (''pChange'', JInt 0),
               (''open'', JInt 0), (''high'', JInt 0), (''low'', JInt 0)])]"
    by (simp add: fetch_nse_indices_def example_env_def upstream_indices_scenario_def
        indices_scenario_body_def indices_of_body_def index_snapshot_def INDEX_NAMES_def)
  have down: "session_get (example_env upstream_down 3) indices_url = NetworkError"
    by (simp add: example_env_def upstream_down_def)
  have unavailable: "session_get (example_env upstream_503 3) indices_url = Reply 503 None"
    by (simp add: example_env_def upstream_503_def)
  have array: "session_get (example_env upstream_array 3) indices_url = Reply 200 (Some (JArr []))"
    by (simp add: example_env_def upstream_array_def)
  have shape: "indices_of_body (JArr []) = None"
    by (simp add: indices_of_body_def)
  from indices_allow_list [of "example_env upstream_down 3"] down
  have r1: "fst (fetch_nse_indices (example_env upstream_down 3)) = JObj []"
    by auto
  from indices_allow_list [of "example_env upstream_503 3"] unavailable
  have r2: "fst (fetch_nse_indices (example_env upstream_503 3)) = JObj []"
    by auto
  from indices_allow_list [of "example_env upstream_array 3"] array shape
  have r3: "fst (fetch_nse_indices (example_env upstream_array 3)) = JObj []"
    by auto
  from scenario down unavailable array shape r1 r2 r3 show ?thesis
    by simp
qed

section \<open>The single-symbol route\<close>

lemma stock_quote_truthy: "stock_quote s t d = Some q \<Longrightarrow> py_truthy q"
  by (auto simp add: stock_quote_def split: bind_splits)

lemma fetch_stock_truthy: "fst (fetch_nse_stock_data e s) = Some q \<Longrightarrow> py_truthy q"
  by (auto simp add: fetch_nse_stock_data_def Let_def stock_quote_truthy
      split: reply.splits if_splits option.splits)

lemma get_stock_eq:
  "get_stock e symbol =
     (case fst (fetch_nse_stock_data e (str_upper e symbol)) of
        None \<Rightarrow> Inr fetch_failed
      | Some q \<Rightarrow> Inr \<lparr>status = 200, body = q\<rparr>,
      [homepage_url, quote_url (str_upper e symbol)])"
  using init_calls[of e] fetch_stock_calls[of e "str_upper e symbol"]
  by (auto simp add: get_stock_def split_beta fetch_stock_truthy
      split: option.splits)

lemma fetch_stock_fails:
  "session_get e (quote_url s) = NetworkError \<Longrightarrow> fst (fetch_nse_stock_data e s) = None"
  "session_get e (quote_url s) = Reply st b \<Longrightarrow> st \<noteq> 200 \<Longrightarrow> fst (fetch_nse_stock_data e s) = None"
  "session_get e (quote_url s) = Reply st None \<Longrightarrow> fst (fetch_nse_stock_data e s) = None"
  by (simp_all add: fetch_nse_stock_data_def Let_def)

text \<open>
  C7. For every symbol, cache and upstream behaviour, \<^verbatim>\<open>/api/stock/<symbol>\<close> requests the
  homepage (the warm-up) and then the quote of the uppercased symbol (the value of
  \<^verbatim>\<open>symbol.upper()\<close>, whatever the interpreter's \<^verbatim>\<open>str.upper\<close> returns for it), and nothing
  else; it leaves the cache as it was and its response does not depend on the cache. When
  the fetch fails (\<^verbatim>\<open>fetch_nse_stock_data\<close> returns \<^verbatim>\<open>None\<close>: the request raised, the status
  is not 200, as with 503, or the body is not JSON), the response is status 500 with the
  body \<^verbatim>\<open>{"error": "Failed to fetch stock data"}\<close>; when it succeeds, status 200 with the
  quote.
\<close>

theorem get_stock_bypasses_cache:
  "fst (snd (handle c e (GetStock symbol))) = c \<and>
   snd (snd (handle c e (GetStock symbol))) = [homepage_url, quote_url (str_upper e symbol)] \<and>
   fst (handle c e (GetStock symbol)) = fst (handle c' e (GetStock symbol)) \<and>
   (fst (fetch_nse_stock_data e (str_upper e symbol)) = None \<longrightarrow>
      fst (handle c e (GetStock symbol)) = Inr fetch_failed) \<and>
   (session_get e (quote_url (str_upper e symbol)) = NetworkError \<longrightarrow>
      fst (handle c e (GetStock symbol)) = Inr fetch_failed) \<and>
   (session_get e (quote_url (str_upper e symbol)) = Reply st b \<and> (st \<noteq> 200 \<or> b = None) \<longrightarrow>
      fst (handle c e (GetStock symbol)) = Inr fetch_failed) \<and>
   (fst (fetch_nse_stock_data e (str_upper e symbol)) = Some q \<longrightarrow>
      fst (handle c e (GetStock symbol)) = Inr \<lparr>status = 200, body = q\<rparr>)"
  using fetch_stock_fails[of e "str_upper e symbol"]
  by (auto simp add: get_stock_eq)

theorem get_stock_bypasses_cache_witness:
  "str_upper (example_env upstream_503 7) ''foo'' = ''FOO'' \<and>
   session_get (example_env upstream_503 7) (quote_url ''FOO'') = Reply 503 None \<and>
   handle initial_cache (example_env upstream_503 7) (GetStock ''foo'')
     = (Inr \<lparr>status = 500, body = JObj [(''error'', JStr ''Failed to fetch stock data'')]\<rparr>,
        initial_cache,
        [homepage_url, ''https://www.nseindia.com/api/quote-equity?symbol=FOO''])"
proof -
  have up: "str_upper (example_env upstream_503 7) ''foo'' = ''FOO''"
    by (simp add: example_env_def ascii_upper_def upper_char_def)
  have reply: "session_get (example_env upstream_503 7) (quote_url ''FOO'') = Reply 503 None"
    by (simp add: example_env_def upstream_503_def)
  have "session_get (example_env upstream_503 7)
        (quote_url (str_upper (example_env upstream_503 7) ''foo'')) = Reply 503 None
      \<and> ((503::nat) \<noteq> 200 \<or> (None :: json option) = None)"
    using reply up by simp
  with get_stock_bypasses_cache [of initial_cache "example_env upstream_503 7" "''foo''"
      initial_cache 503 None]
  have "handle initial_cache (example_env upstream_503 7) (GetStock ''foo'')
     = (Inr fetch_failed, initial_cache, [homepage_url, quote_url ''FOO''])"
    unfolding up by (metis prod.collapse)
  then show ?thesis
    using up reply by (simp add: fetch_failed_def quote_url_def)
qed

section \<open>Clearing the cache\<close>

text \<open>
  C9. \<^verbatim>\<open>clear_cache\<close> sets \<^verbatim>\<open>cache['data']\<close> to \<^verbatim>\<open>None\<close> and the timestamp to 0 whatever
  the cache held. On the cache it leaves, the next request to \<^verbatim>\<open>/api/stocks\<close>,
  \<^verbatim>\<open>/api/indices\<close> or \<^verbatim>\<open>/api/all\<close> never answers from the cache: it warms the session up,
  runs its whole fetch sequence and returns what it fetched, at any clock reading.
\<close>

theorem clear_cache_forces_fetch:
  "fst (snd (clear_cache c)) = c\<lparr>data := None, timestamp := 0\<rparr> \<and>
   fst (get_stocks (fst (snd (clear_cache c))) e)
     = Inr \<lparr>status = 200, body = JArr (fst (stocks_loop e TOP_STOCKS))\<rparr> \<and>
   snd (snd (get_stocks (fst (snd (clear_cache c))) e))
     = homepage_url # map quote_url TOP_STOCKS \<and>
   fst (get_indices (fst (snd (clear_cache c))) e)
     = Inr \<lparr>status = 200, body = fst (fetch_nse_indices e)\<rparr> \<and>
   snd (snd (get_indices (fst (snd (clear_cache c))) e))
     = [homepage_url, indices_url] \<and>
   fst (get_all_data (fst (snd (clear_cache c))) e)
     = Inr \<lparr>status = 200, body = JObj (snapshot e)\<rparr> \<and>
   snd (snd (get_all_data (fst (snd (clear_cache c))) e))
     = homepage_url # indices_url # snd (fetch_top_gainers_losers e)
         @ map quote_url (take 15 TOP_STOCKS)"
proof -
  let ?c = "c\<lparr>data := None, timestamp := 0\<rparr>"
  have cleared: "fst (snd (clear_cache c)) = ?c"
    by (simp add: clear_cache_def)
  have miss: "\<not> (data_truthy ?c \<and> time_time e - timestamp ?c < ttl ?c)"
    by (simp add: data_truthy_def)
  have miss': "\<not> (data_truthy ?c \<and> py_truthy (cached_indices ?c)
      \<and> time_time e - timestamp ?c < ttl ?c)"
    by (simp add: data_truthy_def)
  show ?thesis
    unfolding cleared get_stocks_miss [OF miss] get_indices_miss [OF miss'] get_all_miss [OF miss]
    by simp
qed

section \<open>The movers fetcher\<close>

lemma urls_distinct: "gainers_url \<noteq> losers_url"
  by (simp add: gainers_url_def losers_url_def)

lemma mover_entries_map:
  "mover_entries xs = Some ys \<Longrightarrow> map Some ys = map mover_entry xs"
  by (induction xs arbitrary: ys) (auto split: bind_splits)

lemma mover_entries_length:
  "mover_entries xs = Some ys \<Longrightarrow> length ys = length xs"
  by (induction xs arbitrary: ys) (auto split: bind_splits)

text \<open>What the whole function returns, by the outcome of its two legs.\<close>

lemma fetch_movers_replies:
  assumes "session_get e gainers_url = Reply gst gb" and "session_get e losers_url = Reply lst lb"
  shows "fst (fetch_top_gainers_losers e) =
    (case movers_leg gst gb of
       None \<Rightarrow> movers_result [] []
     | Some gs \<Rightarrow> (case movers_leg lst lb of None \<Rightarrow> movers_result [] [] | Some ls \<Rightarrow> movers_result gs ls))"
  using assms by (simp add: fetch_top_gainers_losers_def)

lemma fetch_movers_network_error:
  "session_get e gainers_url = NetworkError \<or> session_get e losers_url = NetworkError \<Longrightarrow>
   fst (fetch_top_gainers_losers e) = movers_result [] []"
  by (auto simp add: fetch_top_gainers_losers_def split: reply.splits)

text \<open>
  C4, as the code has it. Both requests and both legs run inside one \<^verbatim>\<open>try\<close> block. A status
  other than 200 on one leg leaves that leg's list empty and the other leg's entries are
  produced from its own response. A leg that raises (the request fails or times out, the
  body is not JSON, or the body has not the expected shape) makes the function return both
  lists empty, whatever the other leg returned.
\<close>

theorem movers_legs:
  "(session_get e gainers_url = Reply gst gb \<and> session_get e losers_url = Reply lst lb \<and>
      gst \<noteq> 200 \<and> movers_leg lst lb = Some ls
      \<longrightarrow> fst (fetch_top_gainers_losers e) = movers_result [] ls) \<and>
   (session_get e gainers_url = Reply gst gb \<and> session_get e losers_url = Reply lst lb \<and>
      lst \<noteq> 200 \<and> movers_leg gst gb = Some gs
      \<longrightarrow> fst (fetch_top_gainers_losers e) = movers_result gs []) \<and>
   (session_get e gainers_url = Reply gst gb \<and> session_get e losers_url = Reply lst lb \<and>
      (movers_leg gst gb = None \<or> movers_leg lst lb = None)
      \<longrightarrow> fst (fetch_top_gainers_losers e) = movers_result [] []) \<and>
   (session_get e gainers_url = NetworkError \<or> session_get e losers_url = NetworkError
      \<longrightarrow> fst (fetch_top_gainers_losers e) = movers_result [] [])"
proof -
  have leg: "st \<noteq> 200 \<Longrightarrow> movers_leg st b = Some []" for st b
    by (simp add: movers_leg_def)
  show ?thesis
    using fetch_movers_network_error [of e]
    by (auto simp add: fetch_movers_replies leg split: option.splits)
qed

lemma py_slice_iter_length:
  "py_slice n lst = Some first \<Longrightarrow> py_iter first = Some items \<Longrightarrow> length items \<le> n"
  by (cases lst) auto

lemma movers_leg_length: "movers_leg st b = Some gs \<Longrightarrow> length gs \<le> 10"
  by (auto simp add: movers_leg_def split: if_splits bind_splits
      dest!: mover_entries_length dest: py_slice_iter_length)

lemma movers_leg_list:
  assumes "movers_leg st (Some d) = Some gs" and "nifty_data d = Some (JArr xs)"
  shows "map Some gs = map mover_entry (take (length gs) xs)"
proof (cases "st = 200")
  case True
  with assms have entries: "mover_entries (take 10 xs) = Some gs"
    by (simp add: movers_leg_def)
  from mover_entries_length [OF entries] have "take (length gs) xs = take 10 xs"
    by (simp add: min_def)
  with mover_entries_map [OF entries] show ?thesis by simp
next
  case False
  with assms show ?thesis by (simp add: movers_leg_def)
qed

lemma mover_entries_total:
  "\<forall>x\<in>set xs. mover_entry x \<noteq> None \<Longrightarrow> \<exists>ys. mover_entries xs = Some ys"
  by (induction xs) auto

lemma movers_leg_whole:
  assumes "nifty_data d = Some (JArr xs)" and "\<forall>x\<in>set (take 10 xs). mover_entry x \<noteq> None"
  shows "\<exists>gs. movers_leg 200 (Some d) = Some gs \<and> map Some gs = map mover_entry (take 10 xs)"
proof -
  from mover_entries_total [OF assms(2)] obtain gs where "mover_entries (take 10 xs) = Some gs" ..
  with assms(1) mover_entries_map [OF this] show ?thesis
    by (simp add: movers_leg_def)
qed

lemma fetch_movers_cases:
  "fst (fetch_top_gainers_losers e) = movers_result [] [] \<or>
   (\<exists>gst gb lst lb gs ls.
      session_get e gainers_url = Reply gst gb \<and> session_get e losers_url = Reply lst lb \<and>
      movers_leg gst gb = Some gs \<and> movers_leg lst lb = Some ls \<and>
      fst (fetch_top_gainers_losers e) = movers_result gs ls)"
  by (auto simp add: fetch_top_gainers_losers_def split: reply.splits option.splits)

lemma get_movers_eq:
  "get_movers e =
     (Inr \<lparr>status = 200, body = fst (fetch_top_gainers_losers e)\<rparr>,
      homepage_url # snd (fetch_top_gainers_losers e))"
  using init_calls [of e] by (simp add: get_movers_def split_beta)

text \<open>
  C5. The response of \<^verbatim>\<open>/api/movers\<close> has status 200 and two lists of at most 10 entries
  each. Where the upstream body of a leg holds a list, that side of the response is the
  transform (\<^verbatim>\<open>mover_entry\<close>) of a prefix of that list, in the upstream order. When both legs
  answer 200 with a list whose first ten items all transform, each side is the transform of
  exactly the first ten items of its list (of the whole list when it has fewer).
\<close>

theorem movers_prefix:
  "\<exists>gs ls.
     fst (get_movers e) = Inr \<lparr>status = 200, body = movers_result gs ls\<rparr> \<and>
     length gs \<le> 10 \<and> length ls \<le> 10 \<and>
     (\<forall>st d xs. session_get e gainers_url = Reply st (Some d) \<and> nifty_data d = Some (JArr xs)
        \<longrightarrow> map Some gs = map mover_entry (take (length gs) xs)) \<and>
     (\<forall>st d ys. session_get e losers_url = Reply st (Some d) \<and> nifty_data d = Some (JArr ys)
        \<longrightarrow> map Some ls = map mover_entry (take (length ls) ys)) \<and>
     (\<forall>d d' xs ys.
        session_get e gainers_url = Reply 200 (Some d) \<and> nifty_data d = Some (JArr xs) \<and>
        session_get e losers_url = Reply 200 (Some d') \<and> nifty_data d' = Some (JArr ys) \<and>
        (\<forall>x\<in>set (take 10 xs). mover_entry x \<noteq> None) \<and>
        (\<forall>y\<in>set (take 10 ys). mover_entry y \<noteq> None)
        \<longrightarrow> map Some gs = map mover_entry (take 10 xs) \<and>
            map Some ls = map mover_entry (take 10 ys))"
proof -
  from fetch_movers_cases [of e] show ?thesis
  proof
    assume empty: "fst (fetch_top_gainers_losers e) = movers_result [] []"
    have "map Some [] = map mover_entry (take 10 xs) \<and> map Some [] = map mover_entry (take 10 ys)"
      if "session_get e gainers_url = Reply 200 (Some d)" "nifty_data d = Some (JArr xs)"
        "session_get e losers_url = Reply 200 (Some d')" "nifty_data d' = Some (JArr ys)"
        "\<forall>x\<in>set (take 10 xs). mover_entry x \<noteq> None"
        "\<forall>y\<in>set (take 10 ys). mover_entry y \<noteq> None"
      for d d' xs ys
    proof -
      from movers_leg_whole [OF that(2) that(5)] obtain gs where
        gs: "movers_leg 200 (Some d) = Some gs" "map Some gs = map mover_entry (take 10 xs)"
        by blast
      from movers_leg_whole [OF that(4) that(6)] obtain ls where
        ls: "movers_leg 200 (Some d') = Some ls" "map Some ls = map mover_entry (take 10 ys)"
        by blast
      from that(1) that(3) gs(1) ls(1) have "fst (fetch_top_gainers_losers e) = movers_result gs ls"
        by (simp add: fetch_movers_replies)
      with empty have "gs = [] \<and> ls = []"
        by (simp add: movers_result_def)
      with gs(2) ls(2) show ?thesis by simp
    qed
    with empty show ?thesis
      by (intro exI [of _ "[]"]) (simp add: get_movers_eq)
  next
    assume "\<exists>gst gb lst lb gs ls.
      session_get e gainers_url = Reply gst gb \<and> session_get e losers_url = Reply lst lb \<and>
      movers_leg gst gb = Some gs \<and> movers_leg lst lb = Some ls \<and>
      fst (fetch_top_gainers_losers e) = movers_result gs ls"
    then obtain gst gb lst lb gs ls where
      replies: "session_get e gainers_url = Reply gst gb" "session_get e losers_url = Reply lst lb"
      and legs: "movers_leg gst gb = Some gs" "movers_leg lst lb = Some ls"
      and result: "fst (fetch_top_gainers_losers e) = movers_result gs ls"
      by blast
    have bound: "length gs \<le> 10" "length ls \<le> 10"
      using legs by (auto dest: movers_leg_length)
    have g_prefix: "map Some gs = map mover_entry (take (length gs) xs)"
      if "session_get e gainers_url = Reply st (Some d)" "nifty_data d = Some (JArr xs)" for st d xs
      using that replies legs movers_leg_list [of gst d gs xs] by simp
    have l_prefix: "map Some ls = map mover_entry (take (length ls) ys)"
      if "session_get e losers_url = Reply st (Some d)" "nifty_data d = Some (JArr ys)" for st d ys
      using that replies legs movers_leg_list [of lst d ls ys] by simp
    have whole: "map Some gs = map mover_entry (take 10 xs) \<and> map Some ls = map mover_entry (take 10 ys)"
      if "session_get e gainers_url = Reply 200 (Some d)" "nifty_data d = Some (JArr xs)"
        "session_get e losers_url = Reply 200 (Some d')" "nifty_data d' = Some (JArr ys)"
        "\<forall>x\<in>set (take 10 xs). mover_entry x \<noteq> None"
        "\<forall>y\<in>set (take 10 ys). mover_entry y \<noteq> None"
      for d d' xs ys
      using movers_leg_whole [OF that(2) that(5)] movers_leg_whole [OF that(4) that(6)]
        that(1) that(3) replies legs by auto
    from result bound g_prefix l_prefix whole show ?thesis
      by - (rule exI [of _ gs], rule exI [of _ ls], simp add: get_movers_eq)
  qed
qed

lemma map_Some_eq: "map Some xs = map Some ys \<Longrightarrow> xs = ys"
  by (simp add: inj_map_eq_map)

lemma mover_entry_item: "mover_entry (mover_item s) = Some (mover_row s)"
  by (simp add: mover_entry_def mover_item_def mover_row_def)

lemma mover_entries_items: "mover_entries (map mover_item syms) = Some (map mover_row syms)"
  by (induction syms) (simp_all add: mover_entry_item)

lemma nifty_data_body: "nifty_data (movers_body syms) = Some (JArr (map mover_item syms))"
  by (simp add: nifty_data_def movers_body_def)

lemma movers_leg_body:
  "movers_leg 200 (Some (movers_body syms)) = Some (map mover_row (take 10 syms))"
  by (simp add: movers_leg_def nifty_data_body take_map mover_entries_items)

lemma upstream_movers_replies:
  "session_get (example_env (upstream_movers g l) t) gainers_url = g"
  "session_get (example_env (upstream_movers g l) t) losers_url = l"
  using urls_distinct by (simp_all add: example_env_def upstream_movers_def)

text \<open>
  The legs are coupled through the exception handler: with a gainers body that is not JSON,
  or a gainers request that raises, and a losers response of one entry, the losers list of
  the result is empty.
\<close>

theorem movers_legs_counterexample:
  "session_get env_gainers_malformed gainers_url = Reply 200 None \<and>
   session_get env_gainers_malformed losers_url = Reply 200 (Some (movers_body [''TCS''])) \<and>
   movers_leg 200 (Some (movers_body [''TCS''])) = Some [mover_row ''TCS''] \<and>
   fst (fetch_top_gainers_losers env_gainers_malformed) = movers_result [] [] \<and>
   session_get env_gainers_down gainers_url = NetworkError \<and>
   fst (fetch_top_gainers_losers env_gainers_down) = movers_result [] []"
  by (simp add: env_gainers_malformed_def env_gainers_down_def upstream_movers_replies
      movers_leg_body fetch_movers_replies fetch_movers_network_error)
     (simp add: movers_leg_def)

theorem movers_legs_witness:
  "fst (fetch_top_gainers_losers env_gainers_503) = movers_result [] [mover_row ''TCS''] \<and>
   fst (fetch_top_gainers_losers env_losers_503) = movers_result [mover_row ''TCS''] [] \<and>
   fst (fetch_top_gainers_losers env_gainers_malformed) = movers_result [] [] \<and>
   fst (fetch_top_gainers_losers env_gainers_down) = movers_result [] []"
proof -
  have leg: "movers_leg 200 (Some (movers_body [''TCS''])) = Some [mover_row ''TCS'']"
    by (simp add: movers_leg_body)
  have malformed: "movers_leg 200 None = None"
    by (simp add: movers_leg_def)
  have "fst (fetch_top_gainers_losers env_gainers_503) = movers_result [] [mover_row ''TCS'']"
    using movers_legs [of env_gainers_503 503 None 200 "Some (movers_body [''TCS''])"
        "[mover_row ''TCS'']"] leg
    by (simp add: env_gainers_503_def upstream_movers_replies)
  moreover
  have "fst (fetch_top_gainers_losers env_losers_503) = movers_result [mover_row ''TCS''] []"
    using movers_legs [of env_losers_503 200 "Some (movers_body [''TCS''])" 503 None
        _ "[mover_row ''TCS'']"] leg
    by (simp add: env_losers_503_def upstream_movers_replies)
  moreover
  have "fst (fetch_top_gainers_losers env_gainers_malformed) = movers_result [] []"
    using movers_legs [of env_gainers_malformed 200 None 200 "Some (movers_body [''TCS''])"]
      malformed
    by (simp add: env_gainers_malformed_def upstream_movers_replies)
  moreover
  have "fst (fetch_top_gainers_losers env_gainers_down) = movers_result [] []"
    using movers_legs [of env_gainers_down]
    by (simp add: env_gainers_down_def upstream_movers_replies)
  ultimately show ?thesis by simp
qed

theorem movers_prefix_witness:
  "fst (get_movers env_movers_long)
     = Inr \<lparr>status = 200,
            body = movers_result (map mover_row ten_symbols) (map mover_row [''L01'', ''L02''])\<rparr> \<and>
   length (ten_symbols @ [''S11'', ''S12'']) = 12 \<and>
   length (map mover_row ten_symbols) = 10"
proof -
  let ?xs = "map mover_item (ten_symbols @ [''S11'', ''S12''])"
  let ?ys = "map mover_item [''L01'', ''L02'']"
  have g: "session_get env_movers_long gainers_url
      = Reply 200 (Some (movers_body (ten_symbols @ [''S11'', ''S12''])))"
    and l: "session_get env_movers_long losers_url = Reply 200 (Some (movers_body [''L01'', ''L02'']))"
    by (simp_all add: env_movers_long_def upstream_movers_replies)
  have ok: "\<forall>x\<in>set (take 10 ?xs). mover_entry x \<noteq> None" "\<forall>y\<in>set (take 10 ?ys). mover_entry y \<noteq> None"
    by (auto simp add: mover_entry_item dest!: in_set_takeD)
  from movers_prefix [of env_movers_long] obtain gs ls where
    result: "fst (get_movers env_movers_long) = Inr \<lparr>status = 200, body = movers_result gs ls\<rparr>"
    and whole: "\<forall>d d' xs ys.
        session_get env_movers_long gainers_url = Reply 200 (Some d) \<and> nifty_data d = Some (JArr xs) \<and>
        session_get env_movers_long losers_url = Reply 200 (Some d') \<and> nifty_data d' = Some (JArr ys) \<and>
        (\<forall>x\<in>set (take 10 xs). mover_entry x \<noteq> None) \<and>
        (\<forall>y\<in>set (take 10 ys). mover_entry y \<noteq> None)
        \<longrightarrow> map Some gs = map mover_entry (take 10 xs) \<and>
            map Some ls = map mover_entry (take 10 ys)"
    by blast
  from whole g l ok nifty_data_body
  have "map Some gs = map mover_entry (take 10 ?xs) \<and> map Some ls = map mover_entry (take 10 ?ys)"
    by blast
  then have "map Some gs = map Some (map mover_row ten_symbols)
      \<and> map Some ls = map Some (map mover_row [''L01'', ''L02''])"
    by (simp add: ten_symbols_def mover_entry_item)
  then have "gs = map mover_row ten_symbols \<and> ls = map mover_row [''L01'', ''L02'']"
    by (blast dest: map_Some_eq)
  with result show ?thesis
    by (simp add: ten_symbols_def)
qed

section \<open>Quotes from bodies without optional fields, and what a miss writes\<close>

lemma lacks_keys_get:
  "lacks_keys ks d \<Longrightarrow> k \<in> set ks \<Longrightarrow> dict_get d k v = Some v"
  by (cases d) (auto simp add: lacks_keys_def list_all_iff)

lemma stock_quote_bare:
  assumes "bare_body d"
  shows "stock_quote symbol stamp d = Some (bare_quote symbol stamp)"
proof -
  from assms obtain price_info price_band where
    info: "dict_get d ''priceInfo'' (JObj []) = Some price_info"
    and band: "dict_get d ''metadata'' (JObj []) = Some price_band"
    and lacks_info: "lacks_keys [''lastPrice'', ''change'', ''pChange'', ''previousClose'', ''open'',
            ''intraDayHighLow'', ''totalTradedVolume'', ''totalTradedValue'', ''lastUpdateTime'']
            price_info"
    and lacks_band: "lacks_keys [''companyName''] price_band"
    by (auto simp add: bare_body_def split: option.splits)
  note get = lacks_keys_get [OF lacks_info] lacks_keys_get [OF lacks_band]
  show ?thesis
    by (simp add: stock_quote_def info band get bare_quote_def)
qed

text \<open>
  C3, as the code has it. When the upstream answers 200 with a JSON object in which
  \<^verbatim>\<open>priceInfo\<close> and \<^verbatim>\<open>metadata\<close> are absent, or are objects without any of the fields read
  from them, \<^verbatim>\<open>fetch_nse_stock_data\<close> returns a quote and not \<^verbatim>\<open>None\<close>. In that quote every
  numeric field is the integer 0 and \<^verbatim>\<open>lastUpdateTime\<close> is the empty string; \<^verbatim>\<open>name\<close> is
  the requested symbol (the default of \<^verbatim>\<open>price_band.get('companyName', symbol)\<close>), \<^verbatim>\<open>symbol\<close>
  is the requested symbol and \<^verbatim>\<open>timestamp\<close> is the current instant.
\<close>

theorem bare_body_quote:
  assumes "session_get e (quote_url symbol) = Reply 200 (Some d)" and "bare_body d"
  shows "fst (fetch_nse_stock_data e symbol) = Some (bare_quote symbol (now_isoformat e))"
  using assms by (simp add: fetch_nse_stock_data_def Let_def stock_quote_bare)

theorem bare_body_quote_witness:
  "session_get (example_env upstream_bare 0) (quote_url ''TCS'') = Reply 200 (Some (JObj [])) \<and>
   bare_body (JObj []) \<and>
   bare_body (JObj [(''priceInfo'', JObj []), (''metadata'', JObj [])]) \<and>
   fst (fetch_nse_stock_data (example_env upstream_bare 0) ''TCS'')
     = Some (bare_quote ''TCS'' ''2024-01-01T10:00:00'')"
proof -
  have reply: "session_get (example_env upstream_bare 0) (quote_url ''TCS'') = Reply 200 (Some (JObj []))"
    by (simp add: example_env_def upstream_bare_def)
  have bare: "bare_body (JObj [])"
    by (simp add: bare_body_def lacks_keys_def)
  have bare': "bare_body (JObj [(''priceInfo'', JObj []), (''metadata'', JObj [])])"
    by (simp add: bare_body_def lacks_keys_def)
  from bare_body_quote [OF reply bare] reply bare bare' show ?thesis
    by (simp add: example_env_def)
qed

text \<open>
  Not every string field is empty: for the symbol TCS and the body \<^verbatim>\<open>{}\<close> the fields
  \<^verbatim>\<open>name\<close> and \<^verbatim>\<open>symbol\<close> are \<^verbatim>\<open>"TCS"\<close> and \<^verbatim>\<open>timestamp\<close> is the clock reading.
\<close>

theorem quote_strings_counterexample:
  "session_get (example_env upstream_bare 0) (quote_url ''TCS'') = Reply 200 (Some (JObj [])) \<and>
   fst (fetch_nse_stock_data (example_env upstream_bare 0) ''TCS'')
     = Some (bare_quote ''TCS'' ''2024-01-01T10:00:00'') \<and>
   dict_get (bare_quote ''TCS'' ''2024-01-01T10:00:00'') ''name'' JNull = Some (JStr ''TCS'') \<and>
   dict_get (bare_quote ''TCS'' ''2024-01-01T10:00:00'') ''symbol'' JNull = Some (JStr ''TCS'') \<and>
   dict_get (bare_quote ''TCS'' ''2024-01-01T10:00:00'') ''timestamp'' JNull
     = Some (JStr ''2024-01-01T10:00:00'')"
  by (simp add: fetch_nse_stock_data_def Let_def example_env_def upstream_bare_def
      stock_quote_def bare_quote_def)

lemma cache_lookup_store:
  "cache_lookup (cache_store c k v t) k' = (if k' = k then Some v else cache_lookup c k')"
  by (auto simp add: cache_lookup_def cache_store_def data_truthy_def update_conv'
      split: option.splits)

lemma cache_store_fields:
  "timestamp (cache_store c k v t) = t" "ttl (cache_store c k v t) = ttl c"
  "data_truthy (cache_store c k v t)"
  by (simp_all add: cache_store_def data_truthy_def)

lemma get_stocks_hit_calls:
  "data_truthy c \<and> time_time e - timestamp c < ttl c \<Longrightarrow>
   fst (snd (get_stocks c e)) = c \<and> snd (snd (get_stocks c e)) = []"
  by (simp add: get_stocks_def split: option.splits)

lemma get_indices_hit:
  "data_truthy c \<and> py_truthy (cached_indices c) \<and> time_time e - timestamp c < ttl c \<Longrightarrow>
   get_indices c e = (Inr \<lparr>status = 200, body = cached_indices c\<rparr>, c, [])"
  by (simp add: get_indices_def)

lemma get_all_hit:
  "data_truthy c \<and> time_time e - timestamp c < ttl c \<Longrightarrow>
   get_all_data c e =
     (Inr \<lparr>status = 200, body = JObj (case data c of None \<Rightarrow> [] | Some d \<Rightarrow> d)\<rparr>, c, [])"
  by (simp add: get_all_data_def)

text \<open>
  C8. A request that goes to the upstream (a cache miss) writes the cache as follows.
  \<^verbatim>\<open>/api/stocks\<close> stores the fetched list under \<^verbatim>\<open>stocks\<close> and leaves the entry under every other
  key as it was; \<^verbatim>\<open>/api/indices\<close> does the same under \<^verbatim>\<open>indices\<close>; \<^verbatim>\<open>/api/all\<close> replaces the
  whole of \<^verbatim>\<open>cache['data']\<close> by the snapshot it has just assembled, which holds nothing of the
  old entry. In all three cases the timestamp becomes the current time. A request served
  without any upstream request leaves the cache unchanged.
\<close>

theorem miss_writes:
  "(snd (snd (get_stocks c e)) \<noteq> [] \<longrightarrow>
      cache_lookup (fst (snd (get_stocks c e))) ''stocks''
        = Some (JArr (fst (stocks_loop e TOP_STOCKS))) \<and>
      (\<forall>k. k \<noteq> ''stocks'' \<longrightarrow> cache_lookup (fst (snd (get_stocks c e))) k = cache_lookup c k) \<and>
      timestamp (fst (snd (get_stocks c e))) = time_time e) \<and>
   (snd (snd (get_indices c e)) \<noteq> [] \<longrightarrow>
      cache_lookup (fst (snd (get_indices c e))) ''indices'' = Some (fst (fetch_nse_indices e)) \<and>
      (\<forall>k. k \<noteq> ''indices'' \<longrightarrow> cache_lookup (fst (snd (get_indices c e))) k = cache_lookup c k) \<and>
      timestamp (fst (snd (get_indices c e))) = time_time e) \<and>
   (snd (snd (get_all_data c e)) \<noteq> [] \<longrightarrow>
      data (fst (snd (get_all_data c e))) = Some (snapshot e) \<and>
      timestamp (fst (snd (get_all_data c e))) = time_time e) \<and>
   (snd (snd (get_stocks c e)) = [] \<longrightarrow> fst (snd (get_stocks c e)) = c) \<and>
   (snd (snd (get_indices c e)) = [] \<longrightarrow> fst (snd (get_indices c e)) = c) \<and>
   (snd (snd (get_all_data c e)) = [] \<longrightarrow> fst (snd (get_all_data c e)) = c)"
proof -
  have stocks: ?thesis if "data_truthy c \<and> time_time e - timestamp c < ttl c"
    "data_truthy c \<and> py_truthy (cached_indices c) \<and> time_time e - timestamp c < ttl c"
    using that get_stocks_hit_calls [OF that(1)] get_indices_hit [OF that(2)] get_all_hit [OF that(1)]
    by simp
  have mixed: ?thesis if "data_truthy c \<and> time_time e - timestamp c < ttl c"
    "\<not> (data_truthy c \<and> py_truthy (cached_indices c) \<and> time_time e - timestamp c < ttl c)"
    using get_stocks_hit_calls [OF that(1)] get_indices_miss [OF that(2)] get_all_hit [OF that(1)]
    by (simp add: cache_lookup_store cache_store_fields)
  have miss: ?thesis if "\<not> (data_truthy c \<and> time_time e - timestamp c < ttl c)"
  proof -
    from that have "\<not> (data_truthy c \<and> py_truthy (cached_indices c)
        \<and> time_time e - timestamp c < ttl c)"
      by blast
    from get_stocks_miss [OF that] get_indices_miss [OF this] get_all_miss [OF that]
    show ?thesis
      by (simp add: cache_lookup_store cache_store_fields)
  qed
  from stocks mixed miss show ?thesis by blast
qed

section \<open>A cache that holds only the indices\<close>

lemma stocks_loop_down: "fst (stocks_loop (example_env upstream_down t) syms) = []"
  by (induction syms)
    (simp_all add: split_beta fetch_nse_stock_data_def example_env_def upstream_down_def)

lemma fetch_indices_down: "fst (fetch_nse_indices (example_env upstream_down t)) = JObj []"
  by (simp add: fetch_nse_indices_def example_env_def upstream_down_def)

lemma fetch_movers_down:
  "fetch_top_gainers_losers (example_env upstream_down t) = (movers_result [] [], [gainers_url])"
  by (simp add: fetch_top_gainers_losers_def example_env_def upstream_down_def)

lemma example_env_fields:
  "time_time (example_env u t) = start_time + t" "now_isoformat (example_env u t) = ''2024-01-01T10:00:00''"
  "now_hour (example_env u t) = 10" "session_get (example_env u t) = u"
  by (simp_all add: example_env_def)

lemma cache_indices_only_fields:
  "data_truthy (cache_indices_only v)" "timestamp (cache_indices_only v) = start_time"
  "ttl (cache_indices_only v) = 60"
  "cache_lookup (cache_indices_only v) ''indices'' = Some v"
  "cache_lookup (cache_indices_only v) ''stocks'' = None"
  "cached_indices (cache_indices_only v) = v"
  by (simp_all add: cache_indices_only_def data_truthy_def cache_lookup_def cached_indices_def)

theorem miss_writes_witness:
  "snd (snd (get_stocks (cache_indices_only nifty_50_only) (example_env upstream_down 100))) \<noteq> [] \<and>
   cache_lookup (fst (snd (get_stocks (cache_indices_only nifty_50_only)
      (example_env upstream_down 100)))) ''stocks'' = Some (JArr []) \<and>
   cache_lookup (fst (snd (get_stocks (cache_indices_only nifty_50_only)
      (example_env upstream_down 100)))) ''indices'' = Some nifty_50_only \<and>
   timestamp (fst (snd (get_stocks (cache_indices_only nifty_50_only)
      (example_env upstream_down 100)))) = start_time + 100 \<and>
   snd (snd (get_indices (cache_indices_only nifty_50_only) (example_env upstream_down 100))) \<noteq> [] \<and>
   cache_lookup (fst (snd (get_indices (cache_indices_only nifty_50_only)
      (example_env upstream_down 100)))) ''indices'' = Some (JObj []) \<and>
   timestamp (fst (snd (get_indices (cache_indices_only nifty_50_only)
      (example_env upstream_down 100)))) = start_time + 100 \<and>
   snd (snd (get_all_data (cache_indices_only nifty_50_only) (example_env upstream_down 100))) \<noteq> [] \<and>
   data (fst (snd (get_all_data (cache_indices_only nifty_50_only) (example_env upstream_down 100))))
     = Some [(''indices'', JObj []), (''stocks'', JArr []), (''movers'', movers_result [] []),
             (''timestamp'', JStr ''2024-01-01T10:00:00''), (''market_status'', JStr ''open'')] \<and>
   timestamp (fst (snd (get_all_data (cache_indices_only nifty_50_only)
      (example_env upstream_down 100)))) = start_time + 100 \<and>
   snd (snd (get_indices (cache_indices_only nifty_50_only) (example_env upstream_down 1))) = [] \<and>
   fst (snd (get_indices (cache_indices_only nifty_50_only) (example_env upstream_down 1)))
     = cache_indices_only nifty_50_only \<and>
   snd (snd (get_all_data (cache_indices_only nifty_50_only) (example_env upstream_down 1))) = [] \<and>
   fst (snd (get_all_data (cache_indices_only nifty_50_only) (example_env upstream_down 1)))
     = cache_indices_only nifty_50_only \<and>
   snd (snd (get_stocks (cache_indices_only nifty_50_only) (example_env upstream_down 1))) = [] \<and>
   fst (snd (get_stocks (cache_indices_only nifty_50_only) (example_env upstream_down 1)))
     = cache_indices_only nifty_50_only"
proof -
  let ?c = "cache_indices_only nifty_50_only"
  let ?late = "example_env upstream_down 100"
  let ?soon = "example_env upstream_down 1"
  have stale: "\<not> (data_truthy ?c \<and> time_time ?late - timestamp ?c < ttl ?c)"
    by (simp add: example_env_fields cache_indices_only_fields)
  then have stale': "\<not> (data_truthy ?c \<and> py_truthy (cached_indices ?c)
      \<and> time_time ?late - timestamp ?c < ttl ?c)"
    by blast
  have fresh: "data_truthy ?c \<and> time_time ?soon - timestamp ?c < ttl ?c"
    by (simp add: example_env_fields cache_indices_only_fields)
  have fresh': "data_truthy ?c \<and> py_truthy (cached_indices ?c)
      \<and> time_time ?soon - timestamp ?c < ttl ?c"
    by (simp add: example_env_fields cache_indices_only_fields nifty_50_only_def)
  have calls:
    "snd (snd (get_stocks ?c ?late)) \<noteq> []"
    "snd (snd (get_indices ?c ?late)) \<noteq> []"
    "snd (snd (get_all_data ?c ?late)) \<noteq> []"
    "snd (snd (get_stocks ?c ?soon)) = []"
    "snd (snd (get_indices ?c ?soon)) = []"
    "snd (snd (get_all_data ?c ?soon)) = []"
    by (simp_all add: get_stocks_miss [OF stale] get_indices_miss [OF stale']
        get_all_miss [OF stale] get_stocks_hit_calls [OF fresh] get_indices_hit [OF fresh']
        get_all_hit [OF fresh])
  have snap: "snapshot ?late
     = [(''indices'', JObj []), (''stocks'', JArr []), (''movers'', movers_result [] []),
        (''timestamp'', JStr ''2024-01-01T10:00:00''), (''market_status'', JStr ''open'')]"
    by (simp add: snapshot_def fetch_indices_down stocks_loop_down fetch_movers_down
        example_env_fields)
  have other: "''indices'' \<noteq> ''stocks''"
    by simp
  from miss_writes [of ?c ?late] miss_writes [of ?c ?soon] calls other snap show ?thesis
    by (simp add: stocks_loop_down fetch_indices_down example_env_fields
        cache_indices_only_fields)
qed

section \<open>The cache test and the shared timestamp\<close>

text \<open>
  No route writes \<^verbatim>\<open>cache['ttl']\<close>: it is 60 in every cache the server reaches from its
  initial one.
\<close>

lemma handle_ttl: "ttl (fst (snd (handle c e r))) = ttl c"
proof (cases r)
  case GetStocks
  then show ?thesis
    by (cases "data_truthy c \<and> time_time e - timestamp c < ttl c")
      (simp_all add: get_stocks_hit_calls get_stocks_miss cache_store_fields)
next
  case (GetStock symbol)
  then show ?thesis by (simp add: split_beta)
next
  case GetIndices
  then show ?thesis
    by (cases "data_truthy c \<and> py_truthy (cached_indices c)
          \<and> time_time e - timestamp c < ttl c")
      (simp_all add: get_indices_hit get_indices_miss cache_store_fields)
next
  case GetMovers
  then show ?thesis by (simp add: split_beta)
next
  case GetAll
  then show ?thesis
    by (cases "data_truthy c \<and> time_time e - timestamp c < ttl c")
      (simp_all add: get_all_hit get_all_miss)
next
  case ClearCache
  then show ?thesis by (simp add: clear_cache_def)
qed

lemma serve_ttl: "ttl (serve c rs) = ttl c"
  by (induction rs arbitrary: c) (auto simp add: handle_ttl)

lemma serve_initial_ttl: "ttl (serve initial_cache rs) = 60"
  by (simp add: serve_ttl initial_cache_def)

lemma cached_indices_truthy:
  "py_truthy (cached_indices c) \<longleftrightarrow> (\<exists>v. cache_lookup c ''indices'' = Some v \<and> py_truthy v)"
  by (simp add: cached_indices_def split: option.splits)

lemma cache_lookup_truthy: "cache_lookup c k = Some v \<Longrightarrow> data_truthy c"
  by (auto simp add: cache_lookup_def data_truthy_def split: option.splits)

lemma get_stocks_hit:
  "cache_lookup c ''stocks'' = Some v \<Longrightarrow> time_time e - timestamp c < ttl c \<Longrightarrow>
   get_stocks c e = (Inr \<lparr>status = 200, body = v\<rparr>, c, [])"
  by (simp add: get_stocks_def cache_lookup_truthy)

text \<open>
  Where the cache test does look at the sub-payload. With the TTL of 60 seconds,
  \<^verbatim>\<open>/api/indices\<close> is served from the cache (the stored payload, the cache untouched, no
  upstream request) exactly when the age is below 60 and the cache holds an \<^verbatim>\<open>indices\<close> entry
  that is not empty, and \<^verbatim>\<open>/api/stocks\<close> is served from the cache exactly when the age is
  below 60 and the cache holds a \<^verbatim>\<open>stocks\<close> entry.
\<close>

lemma served_from_cache_iff:
  assumes "ttl c = 60"
  shows "get_indices c e = (Inr \<lparr>status = 200, body = cached_indices c\<rparr>, c, []) \<longleftrightarrow>
      time_time e - timestamp c < 60 \<and>
      (\<exists>v. cache_lookup c ''indices'' = Some v \<and> py_truthy v)"
    and "get_stocks c e = (Inr \<lparr>status = 200, body = v\<rparr>, c, []) \<longleftrightarrow>
      time_time e - timestamp c < 60 \<and> cache_lookup c ''stocks'' = Some v"
proof -
  let ?fresh = "time_time e - timestamp c < 60"
  let ?has_indices = "\<exists>v. cache_lookup c ''indices'' = Some v \<and> py_truthy v"
  have indices_test:
    "(data_truthy c \<and> py_truthy (cached_indices c) \<and> time_time e - timestamp c < ttl c)
      \<longleftrightarrow> ?fresh \<and> ?has_indices"
    using assms by (auto simp add: cached_indices_truthy dest: cache_lookup_truthy)
  show "get_indices c e = (Inr \<lparr>status = 200, body = cached_indices c\<rparr>, c, []) \<longleftrightarrow>
      ?fresh \<and> ?has_indices"
  proof (cases "?fresh \<and> ?has_indices")
    case True
    with indices_test get_indices_hit [of c e] show ?thesis by blast
  next
    case False
    with indices_test get_indices_miss [of c e] show ?thesis by simp
  qed
  show "get_stocks c e = (Inr \<lparr>status = 200, body = v\<rparr>, c, []) \<longleftrightarrow>
      ?fresh \<and> cache_lookup c ''stocks'' = Some v"
  proof (cases "data_truthy c \<and> time_time e - timestamp c < ttl c")
    case True
    with assms show ?thesis
      by (cases "cache_lookup c ''stocks''") (auto simp add: get_stocks_def)
  next
    case False
    with assms get_stocks_miss [OF False] show ?thesis
      by (auto dest: cache_lookup_truthy)
  qed
qed

lemma fetch_indices_scenario:
  "fst (fetch_nse_indices (example_env upstream_indices_scenario t)) = scenario_indices"
  by (simp add: fetch_nse_indices_def example_env_def upstream_indices_scenario_def
      indices_scenario_body_def indices_of_body_def index_snapshot_def INDEX_NAMES_def
      scenario_indices_def)

text \<open>
  C1. The cache test of \<^verbatim>\<open>/api/all\<close> and of \<^verbatim>\<open>/api/stocks\<close> checks the age and that
  \<^verbatim>\<open>cache['data']\<close> is not empty, and not that the sub-payload of the route is there. After
  one \<^verbatim>\<open>/api/indices\<close> request on the initial cache, the cache holds the indices and neither
  \<^verbatim>\<open>stocks\<close> nor \<^verbatim>\<open>movers\<close>. Five seconds later \<^verbatim>\<open>/api/all\<close> does not fetch: it answers from
  the cache with a body that holds the indices only; and \<^verbatim>\<open>/api/stocks\<close> does not fetch
  either: it raises KeyError.
\<close>

theorem cache_test_misses_sub_payload:
  "serve initial_cache [(example_env upstream_indices_scenario 0, GetIndices)]
     = cache_indices_only scenario_indices \<and>
   time_time (example_env upstream_bare 5) - timestamp (cache_indices_only scenario_indices) < 60 \<and>
   cache_lookup (cache_indices_only scenario_indices) ''stocks'' = None \<and>
   cache_lookup (cache_indices_only scenario_indices) ''movers'' = None \<and>
   handle (cache_indices_only scenario_indices) (example_env upstream_bare 5) GetAll
     = (Inr \<lparr>status = 200, body = JObj [(''indices'', scenario_indices)]\<rparr>,
        cache_indices_only scenario_indices, []) \<and>
   handle (cache_indices_only scenario_indices) (example_env upstream_bare 5) GetStocks
     = (Inl KeyError, cache_indices_only scenario_indices, [])"
proof -
  have "\<not> (data_truthy initial_cache \<and> py_truthy (cached_indices initial_cache)
      \<and> time_time (example_env upstream_indices_scenario 0) - timestamp initial_cache
        < ttl initial_cache)"
    by (simp add: initial_cache_def data_truthy_def)
  from get_indices_miss [OF this]
  have "serve initial_cache [(example_env upstream_indices_scenario 0, GetIndices)]
     = cache_indices_only scenario_indices"
    by (simp add: fetch_indices_scenario example_env_fields)
      (simp add: cache_store_def initial_cache_def data_truthy_def cache_indices_only_def)
  moreover
  have "cache_lookup (cache_indices_only scenario_indices) ''movers'' = None"
    by (simp add: cache_lookup_def cache_indices_only_def)
  moreover
  have "handle (cache_indices_only scenario_indices) (example_env upstream_bare 5) GetAll
     = (Inr \<lparr>status = 200, body = JObj [(''indices'', scenario_indices)]\<rparr>,
        cache_indices_only scenario_indices, [])"
    by (simp add: get_all_data_def cache_indices_only_fields example_env_fields)
      (simp add: cache_indices_only_def)
  moreover
  have "handle (cache_indices_only scenario_indices) (example_env upstream_bare 5) GetStocks
     = (Inl KeyError, cache_indices_only scenario_indices, [])"
    by (simp add: get_stocks_def cache_indices_only_fields example_env_fields)
  ultimately show ?thesis
    by (simp add: cache_indices_only_fields example_env_fields)
qed

text \<open>
  C2. \<^verbatim>\<open>/api/stocks\<close> does not always answer 200. After one \<^verbatim>\<open>/api/indices\<close> request on the
  initial cache, the cache holds the indices and no \<^verbatim>\<open>stocks\<close> entry; a \<^verbatim>\<open>/api/stocks\<close>
  request one second later takes the cached branch, where \<^verbatim>\<open>cache['data']['stocks']\<close> raises
  KeyError, which the route does not catch.
\<close>

theorem get_stocks_key_error:
  "serve initial_cache [(example_env upstream_indices_scenario 0, GetIndices)]
     = cache_indices_only scenario_indices \<and>
   handle (cache_indices_only scenario_indices) (example_env upstream_bare 1) GetStocks
     = (Inl KeyError, cache_indices_only scenario_indices, [])"
proof -
  have "\<not> (data_truthy initial_cache \<and> py_truthy (cached_indices initial_cache)
      \<and> time_time (example_env upstream_indices_scenario 0) - timestamp initial_cache
        < ttl initial_cache)"
    by (simp add: initial_cache_def data_truthy_def)
  from get_indices_miss [OF this]
  have "serve initial_cache [(example_env upstream_indices_scenario 0, GetIndices)]
     = cache_indices_only scenario_indices"
    by (simp add: fetch_indices_scenario example_env_fields)
      (simp add: cache_store_def initial_cache_def data_truthy_def cache_indices_only_def)
  moreover
  have "handle (cache_indices_only scenario_indices) (example_env upstream_bare 1) GetStocks
     = (Inl KeyError, cache_indices_only scenario_indices, [])"
    by (simp add: get_stocks_def cache_indices_only_fields example_env_fields)
  ultimately show ?thesis by simp
qed

lemma stocks_loop_bare:
  "fst (stocks_loop (example_env upstream_bare t) syms)
     = map (\<lambda>s. bare_quote s ''2024-01-01T10:00:00'') syms"
proof (induction syms)
  case Nil
  show ?case by simp
next
  case (Cons s syms)
  have bare: "bare_body (JObj [])"
    by (simp add: bare_body_def lacks_keys_def)
  have "fst (fetch_nse_stock_data (example_env upstream_bare t) s)
      = Some (bare_quote s ''2024-01-01T10:00:00'')"
    by (simp add: fetch_nse_stock_data_def Let_def example_env_def upstream_bare_def
        stock_quote_bare [OF bare])
  with Cons.IH show ?case
    by (simp add: split_beta bare_quote_def)
qed

text \<open>
  C10. The routes share one timestamp. Start from a cache without data; let \<^verbatim>\<open>/api/stocks\<close>
  run at time \<open>t\<close>, \<^verbatim>\<open>/api/indices\<close> at a time \<open>t'\<close> more than 60 seconds later (a miss, which
  sets the timestamp to \<open>t'\<close>), and \<^verbatim>\<open>/api/stocks\<close> again at \<open>t''\<close> with \<open>t'' - t' < 60\<close>. The last
  request is answered from the cache, without any upstream request, with the stocks list
  fetched at \<open>t\<close>, although more than 60 seconds have passed since \<open>t\<close>.
\<close>

theorem shared_timestamp_extends_lifetime:
  assumes "ttl c0 = 60" and "\<not> data_truthy c0"
    and "time_time e1 + 60 < time_time e2"
    and "time_time e2 \<le> time_time e3"
    and "time_time e3 - time_time e2 < 60"
  shows
   "handle c0 e1 GetStocks =
      (Inr \<lparr>status = 200, body = JArr (fst (stocks_loop e1 TOP_STOCKS))\<rparr>,
       serve c0 [(e1, GetStocks)],
       homepage_url # map quote_url TOP_STOCKS) \<and>
    snd (snd (handle (serve c0 [(e1, GetStocks)]) e2 GetIndices)) = [homepage_url, indices_url] \<and>
    timestamp (serve c0 [(e1, GetStocks), (e2, GetIndices)]) = time_time e2 \<and>
    handle (serve c0 [(e1, GetStocks), (e2, GetIndices)]) e3 GetStocks =
      (Inr \<lparr>status = 200, body = JArr (fst (stocks_loop e1 TOP_STOCKS))\<rparr>,
       serve c0 [(e1, GetStocks), (e2, GetIndices)],
       []) \<and>
    60 < time_time e3 - time_time e1"
proof -
  let ?payload = "JArr (fst (stocks_loop e1 TOP_STOCKS))"
  let ?c1 = "cache_store c0 ''stocks'' ?payload (time_time e1)"
  let ?c2 = "cache_store ?c1 ''indices'' (fst (fetch_nse_indices e2)) (time_time e2)"
  from assms(2) have miss1: "\<not> (data_truthy c0 \<and> time_time e1 - timestamp c0 < ttl c0)"
    by simp
  have first: "get_stocks c0 e1 = (Inr \<lparr>status = 200, body = ?payload\<rparr>, ?c1,
      homepage_url # map quote_url TOP_STOCKS)"
    by (rule get_stocks_miss [OF miss1])
  have c1: "serve c0 [(e1, GetStocks)] = ?c1"
    by (simp add: first)
  from assms(1,3) have miss2: "\<not> (data_truthy ?c1 \<and> py_truthy (cached_indices ?c1)
      \<and> time_time e2 - timestamp ?c1 < ttl ?c1)"
    by (simp add: cache_store_fields)
  have second: "get_indices ?c1 e2 = (Inr \<lparr>status = 200, body = fst (fetch_nse_indices e2)\<rparr>,
      ?c2, [homepage_url, indices_url])"
    by (rule get_indices_miss [OF miss2])
  have c2: "serve c0 [(e1, GetStocks), (e2, GetIndices)] = ?c2"
    by (simp add: first second)
  have kept: "cache_lookup ?c2 ''stocks'' = Some ?payload"
    by (simp add: cache_lookup_store)
  from assms(1,5) have age: "time_time e3 - timestamp ?c2 < ttl ?c2"
    by (simp add: cache_store_fields)
  have third: "get_stocks ?c2 e3 = (Inr \<lparr>status = 200, body = ?payload\<rparr>, ?c2, [])"
    by (rule get_stocks_hit [OF kept age])
  from assms(3,4) have "60 < time_time e3 - time_time e1"
    by simp
  with first second third show ?thesis
    unfolding c1 c2 by (simp add: cache_store_fields)
qed

theorem shared_timestamp_extends_lifetime_witness:
  "handle (serve initial_cache
      [(example_env upstream_bare 0, GetStocks), (example_env upstream_down 100, GetIndices)])
      (example_env upstream_down 120) GetStocks
     = (Inr \<lparr>status = 200,
             body = JArr (fst (stocks_loop (example_env upstream_bare 0) TOP_STOCKS))\<rparr>,
        serve initial_cache
          [(example_env upstream_bare 0, GetStocks), (example_env upstream_down 100, GetIndices)],
        []) \<and>
   length (fst (stocks_loop (example_env upstream_bare 0) TOP_STOCKS)) = 20 \<and>
   fst (stocks_loop (example_env upstream_down 120) TOP_STOCKS) = [] \<and>
   timestamp (serve initial_cache
      [(example_env upstream_bare 0, GetStocks), (example_env upstream_down 100, GetIndices)])
     = start_time + 100 \<and>
   60 < (start_time + 120) - (start_time + 0)"
proof -
  have start: "ttl initial_cache = 60" "\<not> data_truthy initial_cache"
    by (simp_all add: initial_cache_def data_truthy_def)
  have times:
    "time_time (example_env upstream_bare 0) + 60 < time_time (example_env upstream_down 100)"
    "time_time (example_env upstream_down 100) \<le> time_time (example_env upstream_down 120)"
    "time_time (example_env upstream_down 120) - time_time (example_env upstream_down 100) < 60"
    by (simp_all add: example_env_fields)
  have twenty: "length (fst (stocks_loop (example_env upstream_bare 0) TOP_STOCKS)) = 20"
    by (simp add: stocks_loop_bare) (simp add: TOP_STOCKS_def)
  from shared_timestamp_extends_lifetime [OF start times] twenty show ?thesis
    by (simp add: example_env_fields stocks_loop_down)
qed


end
